theory Spec2Isabelle
  imports Complex_Main "HOL-Library.FSet"
begin

section \<open>The metric accumulators of aggregator/types.py\<close>

text \<open>
  The module defines one class per metric kind. Every class has a constructor, a method
  \<open>sample(value, sample_rate, timestamp=None)\<close> and a method
  \<open>flush(timestamp, interval)\<close> that returns a list of formatter results and resets
  the object. Each class is a record here, each method a function that takes the object
  and returns the updated object next to what the method returns.

  Numbers are rationals: the arithmetic of the methods is exact, and the rounding of
  binary floating point is not part of the model. The operators are those of Python 3
  (\<open>/\<close> is true division, \<open>round\<close> rounds a half to the even neighbour, \<open>int\<close>
  truncates towards zero). The reading of the clock, \<open>time()\<close>, is an argument
  \<open>now\<close> of the function that reads it.
\<close>

subsection \<open>Python's operators\<close>

datatype error =
    NotImplementedError
  | ZeroDivisionError
  | IndexError
  | Infinity
  | UnknownValue

text \<open>\<open>a / b\<close> raises \<open>ZeroDivisionError\<close> when \<open>b\<close> is zero.\<close>

definition py_truediv :: "rat \<Rightarrow> rat \<Rightarrow> error + rat" where
  "py_truediv a b = (if b = 0 then Inl ZeroDivisionError else Inr (a / b))"

text \<open>\<open>int(x)\<close> drops the fractional part.\<close>

definition py_int :: "rat \<Rightarrow> int" where
  "py_int x = (if 0 \<le> x then \<lfloor>x\<rfloor> else \<lceil>x\<rceil>)"

text \<open>\<open>round(x)\<close> is the nearest integer, the even one of the two when \<open>x\<close> is half-way.\<close>

definition py_round :: "rat \<Rightarrow> int" where
  "py_round x =
     (let f = \<lfloor>x\<rfloor>; d = x - of_int f
      in if d < 1 / 2 then f
         else if 1 / 2 < d then f + 1
         else if even f then f else f + 1)"

text \<open>\<open>xs[i]\<close>: the index \<open>-k\<close> is the \<open>k\<close>-th element from the end; outside both ranges the read raises.\<close>

definition py_index :: "'a list \<Rightarrow> int \<Rightarrow> error + 'a" where
  "py_index xs i =
     (if 0 \<le> i \<and> i < int (length xs) then Inr (xs ! nat i)
      else if i < 0 \<and> - int (length xs) \<le> i then Inr (xs ! nat (int (length xs) + i))
      else Inl IndexError)"

text \<open>\<open>x or y\<close> for a number \<open>x\<close> that may be \<open>None\<close>: \<open>None\<close> and zero are false.\<close>

definition py_or :: "rat option \<Rightarrow> rat \<Rightarrow> rat" where
  "py_or x y = (case x of None \<Rightarrow> y | Some v \<Rightarrow> if v = 0 then y else v)"

text \<open>\<open>'%s' % i\<close> for an integer: its decimal digits, with a minus sign when negative.\<close>

fun str_nat :: "nat \<Rightarrow> string" where
  "str_nat n =
     (if n < 10 then [''0123456789'' ! n]
      else str_nat (n div 10) @ [''0123456789'' ! (n mod 10)])"

declare str_nat.simps [simp del]

definition str_int :: "int \<Rightarrow> string" where
  "str_int i = (if i < 0 then ''-'' @ str_nat (nat (- i)) else str_nat (nat i))"

subsection \<open>MetricTypes and the call of the formatter\<close>

datatype MetricTypes = GAUGE | COUNTER | RATE | COUNT

text \<open>
  The formatter is called with keyword arguments only. The record below is one such call.
  The keyword \<open>device_name\<close> is the only one that a call site may leave out, so its
  field says whether it was passed: \<open>None\<close> when the call has no such keyword,
  \<open>Some d\<close> when it passes \<open>d\<close> (itself possibly Python's \<open>None\<close>).
\<close>

record formatter_args =
  kw_metric :: string
  kw_value :: rat
  kw_timestamp :: rat
  kw_tags :: "string list"
  kw_hostname :: "string option"
  kw_device_name :: "string option option"
  kw_metric_type :: MetricTypes
  kw_interval :: rat

subsection \<open>Metric, the base class\<close>

text \<open>The attributes that every constructor sets.\<close>

record 'r Metric =
  formatter :: "formatter_args \<Rightarrow> 'r"
  name :: string
  tags :: "string list"
  hostname :: "string option"
  device_name :: "string option"
  last_sample_time :: "rat option"

definition Metric_sample :: "'r Metric \<Rightarrow> rat \<Rightarrow> rat \<Rightarrow> rat option \<Rightarrow> error + 'r Metric" where
  "Metric_sample self v sample_rate timestamp = Inl NotImplementedError"

definition Metric_flush :: "'r Metric \<Rightarrow> rat \<Rightarrow> rat \<Rightarrow> error + 'r list" where
  "Metric_flush self timestamp interval = Inl NotImplementedError"

subsection \<open>Gauge and BucketGauge\<close>

record 'r Gauge = "'r Metric" +
  Gauge_value :: "rat option"
  Gauge_timestamp :: "rat option"

definition Gauge_init ::
  "(formatter_args \<Rightarrow> 'r) \<Rightarrow> string \<Rightarrow> string list \<Rightarrow> string option \<Rightarrow> string option \<Rightarrow> rat
     \<Rightarrow> 'r Gauge" where
  "Gauge_init fmt nm tgs host dev now =
     \<lparr>formatter = fmt, name = nm, tags = tgs, hostname = host, device_name = dev,
      last_sample_time = None, Gauge_value = None, Gauge_timestamp = Some now\<rparr>"

definition Gauge_sample :: "'r Gauge \<Rightarrow> rat \<Rightarrow> rat \<Rightarrow> rat option \<Rightarrow> rat \<Rightarrow> 'r Gauge" where
  "Gauge_sample self v sample_rate timestamp now =
     self\<lparr>Gauge_value := Some v, last_sample_time := Some now, Gauge_timestamp := timestamp\<rparr>"

definition Gauge_flush :: "'r Gauge \<Rightarrow> rat \<Rightarrow> rat \<Rightarrow> 'r list \<times> 'r Gauge" where
  "Gauge_flush self timestamp interval =
     (case Gauge_value self of
        Some v \<Rightarrow>
          ([formatter self
              \<lparr>kw_metric = name self,
               kw_value = v,
               kw_timestamp = py_or (Gauge_timestamp self) timestamp,
               kw_tags = tags self,
               kw_hostname = hostname self,
               kw_device_name = Some (device_name self),
               kw_metric_type = GAUGE,
               kw_interval = interval\<rparr>],
           self\<lparr>Gauge_value := None\<rparr>)
      | None \<Rightarrow> ([], self))"

text \<open>BucketGauge inherits the constructor and \<open>sample\<close> of Gauge and overrides \<open>flush\<close>.\<close>

definition BucketGauge_flush :: "'r Gauge \<Rightarrow> rat \<Rightarrow> rat \<Rightarrow> 'r list \<times> 'r Gauge" where
  "BucketGauge_flush self timestamp interval =
     (case Gauge_value self of
        Some v \<Rightarrow>
          ([formatter self
              \<lparr>kw_metric = name self,
               kw_value = v,
               kw_timestamp = timestamp,
               kw_tags = tags self,
               kw_hostname = hostname self,
               kw_device_name = Some (device_name self),
               kw_metric_type = GAUGE,
               kw_interval = interval\<rparr>],
           self\<lparr>Gauge_value := None\<rparr>)
      | None \<Rightarrow> ([], self))"

subsection \<open>Count\<close>

record 'r Count = "'r Metric" +
  Count_value :: "rat option"

definition Count_init ::
  "(formatter_args \<Rightarrow> 'r) \<Rightarrow> string \<Rightarrow> string list \<Rightarrow> string option \<Rightarrow> string option
     \<Rightarrow> 'r Count" where
  "Count_init fmt nm tgs host dev =
     \<lparr>formatter = fmt, name = nm, tags = tgs, hostname = host, device_name = dev,
      last_sample_time = None, Count_value = None\<rparr>"

definition Count_sample :: "'r Count \<Rightarrow> rat \<Rightarrow> rat \<Rightarrow> rat option \<Rightarrow> rat \<Rightarrow> 'r Count" where
  "Count_sample self v sample_rate timestamp now =
     self\<lparr>Count_value := Some (py_or (Count_value self) 0 + v), last_sample_time := Some now\<rparr>"

text \<open>
  The \<open>finally\<close> clause of \<open>flush\<close> belongs to the \<open>try\<close> that follows the test
  of \<open>self.value\<close>: it runs when the record is returned, not on the early return.
\<close>

definition Count_flush :: "'r Count \<Rightarrow> rat \<Rightarrow> rat \<Rightarrow> 'r list \<times> 'r Count" where
  "Count_flush self timestamp interval =
     (case Count_value self of
        None \<Rightarrow> ([], self)
      | Some v \<Rightarrow>
          ([formatter self
              \<lparr>kw_metric = name self,
               kw_value = v,
               kw_timestamp = timestamp,
               kw_tags = tags self,
               kw_hostname = hostname self,
               kw_device_name = Some (device_name self),
               kw_metric_type = COUNT,
               kw_interval = interval\<rparr>],
           self\<lparr>Count_value := None\<rparr>))"

subsection \<open>MonotonicCount\<close>

record 'r MonotonicCount = "'r Metric" +
  prev_counter :: "rat option"
  curr_counter :: "rat option"
  MonotonicCount_count :: "rat option"

definition MonotonicCount_init ::
  "(formatter_args \<Rightarrow> 'r) \<Rightarrow> string \<Rightarrow> string list \<Rightarrow> string option \<Rightarrow> string option
     \<Rightarrow> 'r MonotonicCount" where
  "MonotonicCount_init fmt nm tgs host dev =
     \<lparr>formatter = fmt, name = nm, tags = tgs, hostname = host, device_name = dev,
      last_sample_time = None, prev_counter = None, curr_counter = None,
      MonotonicCount_count = None\<rparr>"

definition MonotonicCount_sample ::
  "'r MonotonicCount \<Rightarrow> rat \<Rightarrow> rat \<Rightarrow> rat option \<Rightarrow> rat \<Rightarrow> 'r MonotonicCount" where
  "MonotonicCount_sample self v sample_rate timestamp now =
     (let self1 =
            (case curr_counter self of
               None \<Rightarrow> self\<lparr>curr_counter := Some v\<rparr>
             | Some c \<Rightarrow> self\<lparr>prev_counter := curr_counter self, curr_counter := Some v\<rparr>);
          self2 =
            (case (prev_counter self1, curr_counter self1) of
               (Some prev_v, Some curr_v) \<Rightarrow>
                 self1\<lparr>MonotonicCount_count :=
                          Some (py_or (MonotonicCount_count self1) 0 + max 0 (curr_v - prev_v))\<rparr>
             | _ \<Rightarrow> self1)
      in self2\<lparr>last_sample_time := Some now\<rparr>)"

text \<open>
  As in Count, the test of \<open>self.count\<close> returns before the \<open>try\<close>, so the
  assignments of the \<open>finally\<close> clause run only when a record is returned.
\<close>

definition MonotonicCount_flush ::
  "'r MonotonicCount \<Rightarrow> rat \<Rightarrow> rat \<Rightarrow> 'r list \<times> 'r MonotonicCount" where
  "MonotonicCount_flush self timestamp interval =
     (case MonotonicCount_count self of
        None \<Rightarrow> ([], self)
      | Some c \<Rightarrow>
          ([formatter self
              \<lparr>kw_metric = name self,
               kw_value = c,
               kw_timestamp = timestamp,
               kw_tags = tags self,
               kw_hostname = hostname self,
               kw_device_name = Some (device_name self),
               kw_metric_type = COUNT,
               kw_interval = interval\<rparr>],
           self\<lparr>prev_counter := curr_counter self, curr_counter := None,
                MonotonicCount_count := None\<rparr>))"

subsection \<open>Counter\<close>

record 'r Counter = "'r Metric" +
  Counter_value :: rat

definition Counter_init ::
  "(formatter_args \<Rightarrow> 'r) \<Rightarrow> string \<Rightarrow> string list \<Rightarrow> string option \<Rightarrow> string option
     \<Rightarrow> 'r Counter" where
  "Counter_init fmt nm tgs host dev =
     \<lparr>formatter = fmt, name = nm, tags = tgs, hostname = host, device_name = dev,
      last_sample_time = None, Counter_value = 0\<rparr>"


text \<open>
  \<open>flush\<close> divides inside the \<open>try\<close>: when \<open>interval\<close> is zero the exception
  leaves the method, after the \<open>finally\<close> clause has reset the value.
\<close>

definition Counter_flush :: "'r Counter \<Rightarrow> rat \<Rightarrow> rat \<Rightarrow> (error + 'r list) \<times> 'r Counter" where
  "Counter_flush self timestamp interval =
     (case py_truediv (Counter_value self) interval of
        Inl e \<Rightarrow> (Inl e, self\<lparr>Counter_value := 0\<rparr>)
      | Inr v \<Rightarrow>
          (Inr [formatter self
                  \<lparr>kw_metric = name self,
                   kw_value = v,
                   kw_timestamp = timestamp,
                   kw_tags = tags self,
                   kw_hostname = hostname self,
                   kw_device_name = Some (device_name self),
                   kw_metric_type = RATE,
                   kw_interval = interval\<rparr>],
           self\<lparr>Counter_value := 0\<rparr>))"

subsection \<open>Histogram\<close>

definition DEFAULT_HISTOGRAM_AGGREGATES :: "string list" where
  "DEFAULT_HISTOGRAM_AGGREGATES = [''max'', ''median'', ''avg'', ''count'']"

definition DEFAULT_HISTOGRAM_PERCENTILES :: "rat list" where
  "DEFAULT_HISTOGRAM_PERCENTILES = [95 / 100]"

text \<open>The two keys of \<open>extra_config\<close> that the constructor reads; a key may be missing.\<close>

record extra_config =
  cfg_aggregates :: "string list option"
  cfg_percentiles :: "rat list option"

record 'r Histogram = "'r Metric" +
  Histogram_count :: int
  Histogram_samples :: "rat list"
  aggregates :: "string list"
  percentiles :: "rat list"

definition Histogram_init ::
  "(formatter_args \<Rightarrow> 'r) \<Rightarrow> string \<Rightarrow> string list \<Rightarrow> string option \<Rightarrow> string option
     \<Rightarrow> extra_config option \<Rightarrow> 'r Histogram" where
  "Histogram_init fmt nm tgs host dev cfg =
     \<lparr>formatter = fmt, name = nm, tags = tgs, hostname = host, device_name = dev,
      last_sample_time = None,
      Histogram_count = 0,
      Histogram_samples = [],
      aggregates =
        (case cfg of
           None \<Rightarrow> DEFAULT_HISTOGRAM_AGGREGATES
         | Some c \<Rightarrow>
             (case cfg_aggregates c of None \<Rightarrow> DEFAULT_HISTOGRAM_AGGREGATES | Some a \<Rightarrow> a)),
      percentiles =
        (case cfg of
           None \<Rightarrow> DEFAULT_HISTOGRAM_PERCENTILES
         | Some c \<Rightarrow>
             (case cfg_percentiles c of None \<Rightarrow> DEFAULT_HISTOGRAM_PERCENTILES | Some ps \<Rightarrow> ps))\<rparr>"

definition Histogram_sample ::
  "'r Histogram \<Rightarrow> rat \<Rightarrow> rat \<Rightarrow> rat option \<Rightarrow> rat \<Rightarrow> error + 'r Histogram" where
  "Histogram_sample self v sample_rate timestamp now =
     (case py_truediv 1 sample_rate of
        Inl e \<Rightarrow> Inl e
      | Inr q \<Rightarrow>
          Inr (self\<lparr>Histogram_count := Histogram_count self + py_int q,
                    Histogram_samples := Histogram_samples self @ [v],
                    last_sample_time := Some now\<rparr>))"

text \<open>
  The loop over the percentiles appends one formatter result per percentile to
  \<open>metrics\<close>. Its call of the formatter has no keyword \<open>device_name\<close>.
\<close>

fun Histogram_percentiles ::
  "'r Histogram \<Rightarrow> rat \<Rightarrow> rat \<Rightarrow> rat list \<Rightarrow> 'r list \<Rightarrow> error + 'r list" where
  "Histogram_percentiles self ts interval [] metrics = Inr metrics"
| "Histogram_percentiles self ts interval (p # ps) metrics =
     (case py_index (Histogram_samples self)
             (py_round (p * of_nat (length (Histogram_samples self)) - 1)) of
        Inl e \<Rightarrow> Inl e
      | Inr val \<Rightarrow>
          Histogram_percentiles self ts interval ps
            (metrics @
             [formatter self
                \<lparr>kw_metric = name self @ ''.'' @ str_int (py_int (p * 100)) @ ''percentile'',
                 kw_value = val,
                 kw_timestamp = ts,
                 kw_tags = tags self,
                 kw_hostname = hostname self,
                 kw_device_name = None,
                 kw_metric_type = GAUGE,
                 kw_interval = interval\<rparr>]))"

text \<open>
  What \<open>flush\<close> computes between sorting the samples and resetting the state; \<open>self\<close>
  holds the sorted samples. Every aggregate is computed, also those not configured:
  \<open>Histogram_aggregates\<close> is the two comprehensions that select the configured ones
  and call the formatter on each.
\<close>

definition Histogram_aggregates ::
  "'r Histogram \<Rightarrow> rat \<Rightarrow> rat \<Rightarrow> (string \<times> rat \<times> MetricTypes) list \<Rightarrow> 'r list" where
  "Histogram_aggregates self ts interval aggregators =
     (let metric_aggrs =
            filter (\<lambda>(agg_name, agg_func, m_type). agg_name \<in> set (aggregates self)) aggregators
      in map (\<lambda>(suffix, v, metric_type).
                formatter self
                  \<lparr>kw_metric = name self @ ''.'' @ suffix,
                   kw_value = v,
                   kw_timestamp = ts,
                   kw_tags = tags self,
                   kw_hostname = hostname self,
                   kw_device_name = Some (device_name self),
                   kw_metric_type = metric_type,
                   kw_interval = interval\<rparr>)
           metric_aggrs)"

definition Histogram_metrics :: "'r Histogram \<Rightarrow> rat \<Rightarrow> rat \<Rightarrow> error + 'r list" where
  "Histogram_metrics self ts interval =
     (let samples = Histogram_samples self; len = length samples in
      case py_index samples 0 of
        Inl e \<Rightarrow> Inl e
      | Inr min_v \<Rightarrow>
     (case py_index samples (- 1) of
        Inl e \<Rightarrow> Inl e
      | Inr max_v \<Rightarrow>
     (case py_index samples (py_round (of_nat len / 2 - 1)) of
        Inl e \<Rightarrow> Inl e
      | Inr med \<Rightarrow>
     (let sum_v = sum_list samples in
      case py_truediv sum_v (of_nat len) of
        Inl e \<Rightarrow> Inl e
      | Inr avg \<Rightarrow>
     (case py_truediv (of_int (Histogram_count self)) interval of
        Inl e \<Rightarrow> Inl e
      | Inr cnt \<Rightarrow>
          Histogram_percentiles self ts interval (percentiles self)
            (Histogram_aggregates self ts interval
               [(''min'', min_v, GAUGE),
                (''max'', max_v, GAUGE),
                (''median'', med, GAUGE),
                (''avg'', avg, GAUGE),
                (''sum'', sum_v, GAUGE),
                (''count'', cnt, RATE)]))))))"

text \<open>
  \<open>flush\<close> sorts \<open>self.samples\<close> in place before anything can raise, and resets the
  state only at its end: an exception leaves the samples sorted and the count as it was.
\<close>

definition Histogram_flush ::
  "'r Histogram \<Rightarrow> rat \<Rightarrow> rat \<Rightarrow> (error + 'r list) \<times> 'r Histogram" where
  "Histogram_flush self ts interval =
     (if Histogram_count self = 0 then (Inr [], self)
      else
        let self1 = self\<lparr>Histogram_samples := sort (Histogram_samples self)\<rparr> in
        case Histogram_metrics self1 ts interval of
          Inl e \<Rightarrow> (Inl e, self1)
        | Inr metrics \<Rightarrow> (Inr metrics, self1\<lparr>Histogram_samples := [], Histogram_count := 0\<rparr>))"

subsection \<open>Set\<close>

record ('r, 'a) SetMetric = "'r Metric" +
  Set_values :: "'a fset"

definition Set_init ::
  "(formatter_args \<Rightarrow> 'r) \<Rightarrow> string \<Rightarrow> string list \<Rightarrow> string option \<Rightarrow> string option
     \<Rightarrow> ('r, 'a) SetMetric" where
  "Set_init fmt nm tgs host dev =
     \<lparr>formatter = fmt, name = nm, tags = tgs, hostname = host, device_name = dev,
      last_sample_time = None, Set_values = {||}\<rparr>"

definition Set_sample ::
  "('r, 'a) SetMetric \<Rightarrow> 'a \<Rightarrow> rat \<Rightarrow> rat option \<Rightarrow> rat \<Rightarrow> ('r, 'a) SetMetric" where
  "Set_sample self v sample_rate timestamp now =
     self\<lparr>Set_values := finsert v (Set_values self), last_sample_time := Some now\<rparr>"

definition Set_flush :: "('r, 'a) SetMetric \<Rightarrow> rat \<Rightarrow> rat \<Rightarrow> 'r list \<times> ('r, 'a) SetMetric" where
  "Set_flush self timestamp interval =
     (if Set_values self = {||} then ([], self)
      else
        ([formatter self
            \<lparr>kw_metric = name self,
             kw_value = of_nat (fcard (Set_values self)),
             kw_timestamp = timestamp,
             kw_tags = tags self,
             kw_hostname = hostname self,
             kw_device_name = Some (device_name self),
             kw_metric_type = GAUGE,
             kw_interval = interval\<rparr>],
         self\<lparr>Set_values := {||}\<rparr>))"

subsection \<open>Rate\<close>

record 'r Rate = "'r Metric" +
  Rate_samples :: "(int \<times> rat) list"

definition Rate_init ::
  "(formatter_args \<Rightarrow> 'r) \<Rightarrow> string \<Rightarrow> string list \<Rightarrow> string option \<Rightarrow> string option
     \<Rightarrow> 'r Rate" where
  "Rate_init fmt nm tgs host dev =
     \<lparr>formatter = fmt, name = nm, tags = tgs, hostname = host, device_name = dev,
      last_sample_time = None, Rate_samples = []\<rparr>"

definition Rate_sample :: "'r Rate \<Rightarrow> rat \<Rightarrow> rat \<Rightarrow> rat option \<Rightarrow> rat \<Rightarrow> 'r Rate" where
  "Rate_sample self v sample_rate timestamp now =
     self\<lparr>Rate_samples := Rate_samples self @ [(py_int now, v)],
          last_sample_time := Some now\<rparr>"

text \<open>\<open>_rate\<close> raises \<open>Infinity\<close> or \<open>UnknownValue\<close>; the logging is left out.\<close>

definition Rate_rate :: "int \<times> rat \<Rightarrow> int \<times> rat \<Rightarrow> error + rat" where
  "Rate_rate sample1 sample2 =
     (let interval = fst sample2 - fst sample1 in
      if interval = 0 then Inl Infinity
      else
        let delta = snd sample2 - snd sample1 in
        if delta < 0 then Inl UnknownValue
        else Inr (delta / of_int interval))"

text \<open>
  \<open>flush\<close> catches every exception of the rate computation and returns the empty list
  for it; the \<open>finally\<close> clause keeps the last sample on each path through the
  \<open>try\<close>. \<open>self.samples[-1:]\<close> is the list of the last element.
\<close>

definition Rate_value :: "(int \<times> rat) list \<Rightarrow> error + rat" where
  "Rate_value samples =
     (case py_index samples (- 2) of
        Inl e \<Rightarrow> Inl e
      | Inr sample1 \<Rightarrow>
          (case py_index samples (- 1) of
             Inl e \<Rightarrow> Inl e
           | Inr sample2 \<Rightarrow> Rate_rate sample1 sample2))"

definition Rate_flush :: "'r Rate \<Rightarrow> rat \<Rightarrow> rat \<Rightarrow> 'r list \<times> 'r Rate" where
  "Rate_flush self timestamp interval =
     (if length (Rate_samples self) < 2 then ([], self)
      else
        (case Rate_value (Rate_samples self) of
           Inl e \<Rightarrow> []
         | Inr val \<Rightarrow>
             [formatter self
                \<lparr>kw_metric = name self,
                 kw_value = val,
                 kw_timestamp = timestamp,
                 kw_tags = tags self,
                 kw_hostname = hostname self,
                 kw_device_name = Some (device_name self),
                 kw_metric_type = GAUGE,
                 kw_interval = interval\<rparr>],
         self\<lparr>Rate_samples := drop (length (Rate_samples self) - 1) (Rate_samples self)\<rparr>))"

subsection \<open>Sequences of calls\<close>

text \<open>
  The scheduler outside the module calls \<open>sample\<close> and \<open>flush\<close> on an accumulator in
  some order. A call is recorded with its arguments; a \<open>Sample\<close> also records the
  reading of the clock that the call makes. \<open>run_calls\<close> performs the calls in order
  on an object whose methods do not raise, and collects what each \<open>flush\<close> returns.
\<close>

datatype 'v call = Sample 'v rat "rat option" rat | Flush rat rat

fun run_calls ::
  "('s \<Rightarrow> 'v \<Rightarrow> rat \<Rightarrow> rat option \<Rightarrow> rat \<Rightarrow> 's) \<Rightarrow> ('s \<Rightarrow> rat \<Rightarrow> rat \<Rightarrow> 'r list \<times> 's)
     \<Rightarrow> 's \<Rightarrow> 'v call list \<Rightarrow> 'r list list \<times> 's" where
  "run_calls smp fl self [] = ([], self)"
| "run_calls smp fl self (Sample v sample_rate timestamp now # cs) =
     run_calls smp fl (smp self v sample_rate timestamp now) cs"
| "run_calls smp fl self (Flush timestamp interval # cs) =
     (case fl self timestamp interval of
        (out, self1) \<Rightarrow>
          (case run_calls smp fl self1 cs of (outs, self2) \<Rightarrow> (out # outs, self2)))"

text \<open>Two calls that differ at most in the sample rate they pass.\<close>

fun same_but_sample_rate :: "'v call \<Rightarrow> 'v call \<Rightarrow> bool" where
  "same_but_sample_rate (Sample v r t n) (Sample v' r' t' n') = (v = v' \<and> t = t' \<and> n = n')"
| "same_but_sample_rate (Flush ts iv) (Flush ts' iv') = (ts = ts' \<and> iv = iv')"
| "same_but_sample_rate _ _ = False"

text \<open>A run of \<open>sample\<close> calls on a Gauge, each given by its arguments and clock reading.\<close>

fun Gauge_sample_all :: "'r Gauge \<Rightarrow> (rat \<times> rat \<times> rat option \<times> rat) list \<Rightarrow> 'r Gauge" where
  "Gauge_sample_all self [] = self"
| "Gauge_sample_all self ((v, sample_rate, timestamp, now) # cs) =
     Gauge_sample_all (Gauge_sample self v sample_rate timestamp now) cs"

section \<open>Auxiliary facts\<close>

lemma floor_rat_divide_numeral:
  "\<lfloor>numeral a / numeral b :: rat\<rfloor> = numeral a div numeral b"
  by (metis floor_divide_of_int_eq of_int_numeral)

lemma floor_rat_one_divide_numeral:
  "\<lfloor>1 / numeral b :: rat\<rfloor> = 1 div numeral b"
  by (metis floor_divide_of_int_eq of_int_1 of_int_numeral)

lemma floor_rat_minus_divide_numeral:
  "\<lfloor>- (numeral a / numeral b) :: rat\<rfloor> = - numeral a div numeral b"
  by (metis divide_minus_left floor_divide_of_int_eq of_int_neg_numeral of_int_numeral)

lemma floor_rat_minus_one_divide_numeral:
  "\<lfloor>- (1 / numeral b) :: rat\<rfloor> = - 1 div numeral b"
  by (metis divide_minus_left floor_divide_of_int_eq of_int_minus of_int_1 of_int_numeral)

lemmas rat_floor =
  floor_rat_divide_numeral floor_rat_one_divide_numeral
  floor_rat_minus_divide_numeral floor_rat_minus_one_divide_numeral

lemmas Histogram_defs =
  Histogram_init_def Histogram_sample_def Histogram_flush_def Histogram_metrics_def
  Histogram_aggregates_def py_truediv_def py_int_def py_index_def py_round_def Let_def
  DEFAULT_HISTOGRAM_AGGREGATES_def DEFAULT_HISTOGRAM_PERCENTILES_def
  str_int_def str_nat.simps[of 95] str_nat.simps[of 9] rat_floor

lemma Histogram_flush_returns_reset:
  "\<not> isl (fst (Histogram_flush h ts iv)) \<Longrightarrow>
     Histogram_count (snd (Histogram_flush h ts iv)) = 0"
  by (auto simp: Histogram_flush_def Let_def split: if_splits sum.splits)

lemma run_calls_sample_rate:
  assumes "\<And>s v r r' t n. smp s v r t n = smp s v r' t n"
    and "list_all2 same_but_sample_rate cs cs'"
  shows "run_calls smp fl self cs = run_calls smp fl self cs'"
  using assms(2)
proof (induction cs cs' arbitrary: self rule: list_all2_induct)
  case Nil
  show ?case by simp
next
  case (Cons c cs c' cs')
  show ?case
  proof (cases c)
    case (Sample v r t n)
    with Cons.hyps(1) obtain r' where c': "c' = Sample v r' t n"
      by (cases c') auto
    have "smp self v r t n = smp self v r' t n" by (rule assms(1))
    with Sample c' Cons.IH show ?thesis by simp
  next
    case (Flush ts iv)
    with Cons.hyps(1) have c': "c' = Flush ts iv"
      by (cases c') auto
    with Flush Cons.IH show ?thesis by simp
  qed
qed

lemma Gauge_sample_all_snoc:
  "Gauge_sample_all g (cs @ [(v, r, t, n)]) = Gauge_sample (Gauge_sample_all g cs) v r t n"
  by (induction g cs rule: Gauge_sample_all.induct) simp_all

lemma Gauge_sample_all_identity:
  "formatter (Gauge_sample_all g cs) = formatter g \<and> name (Gauge_sample_all g cs) = name g \<and>
   tags (Gauge_sample_all g cs) = tags g \<and> hostname (Gauge_sample_all g cs) = hostname g \<and>
   device_name (Gauge_sample_all g cs) = device_name g"
  by (induction g cs rule: Gauge_sample_all.induct) (simp_all add: Gauge_sample_def)

section \<open>The claims\<close>

subsection \<open>C1: a second flush in a row\<close>

text \<open>
  Claim C1 says that for every variant, Counter included, a flush that directly follows
  a flush returns the empty list. It fails for Counter, whose \<open>flush\<close> has no test of
  its state: a new Counter flushed twice returns a record of value 0 the second time.
\<close>

theorem Counter_second_flush_not_empty:
  "fst (Counter_flush (snd (Counter_flush (Counter_init id ''m'' [] None None) 10 1)) 20 1) =
     Inr [\<lparr>kw_metric = ''m'', kw_value = 0, kw_timestamp = 20, kw_tags = [],
           kw_hostname = None, kw_device_name = Some None, kw_metric_type = RATE,
           kw_interval = 1\<rparr>]"
  by (simp add: Counter_flush_def Counter_init_def py_truediv_def)

text \<open>
  Claim C1, as amended: for Gauge, BucketGauge, Count, MonotonicCount, Set and Rate, a
  flush that directly follows a flush returns the empty list; so it does for Histogram
  when the first flush returned; and the flush of a Counter that directly follows a flush
  returns, for an interval other than zero, exactly one RATE record of value 0.
\<close>

theorem second_flush_empty_except_Counter:
  "fst (Gauge_flush (snd (Gauge_flush g ts iv)) ts' iv') = [] \<and>
   fst (BucketGauge_flush (snd (BucketGauge_flush g ts iv)) ts' iv') = [] \<and>
   fst (Count_flush (snd (Count_flush c ts iv)) ts' iv') = [] \<and>
   fst (MonotonicCount_flush (snd (MonotonicCount_flush m ts iv)) ts' iv') = [] \<and>
   (\<not> isl (fst (Histogram_flush h ts iv)) \<longrightarrow>
      fst (Histogram_flush (snd (Histogram_flush h ts iv)) ts' iv') = Inr []) \<and>
   fst (Set_flush (snd (Set_flush s ts iv)) ts' iv') = [] \<and>
   fst (Rate_flush (snd (Rate_flush r ts iv)) ts' iv') = [] \<and>
   (iv' \<noteq> 0 \<longrightarrow>
      fst (Counter_flush (snd (Counter_flush k ts iv)) ts' iv') =
        Inr [formatter k
               \<lparr>kw_metric = name k, kw_value = 0, kw_timestamp = ts', kw_tags = tags k,
                kw_hostname = hostname k, kw_device_name = Some (device_name k),
                kw_metric_type = RATE, kw_interval = iv'\<rparr>])"
proof -
  have G: "fst (Gauge_flush (snd (Gauge_flush g ts iv)) ts' iv') = []"
    by (simp add: Gauge_flush_def split: option.splits)
  have B: "fst (BucketGauge_flush (snd (BucketGauge_flush g ts iv)) ts' iv') = []"
    by (simp add: BucketGauge_flush_def split: option.splits)
  have C: "fst (Count_flush (snd (Count_flush c ts iv)) ts' iv') = []"
    by (simp add: Count_flush_def split: option.splits)
  have M: "fst (MonotonicCount_flush (snd (MonotonicCount_flush m ts iv)) ts' iv') = []"
    by (simp add: MonotonicCount_flush_def split: option.splits)
  have H: "\<not> isl (fst (Histogram_flush h ts iv)) \<longrightarrow>
      fst (Histogram_flush (snd (Histogram_flush h ts iv)) ts' iv') = Inr []"
    using Histogram_flush_returns_reset [of h ts iv]
    by (simp add: Histogram_flush_def [of "snd (Histogram_flush h ts iv)"])
  have S: "fst (Set_flush (snd (Set_flush s ts iv)) ts' iv') = []"
    by (simp add: Set_flush_def)
  have R: "fst (Rate_flush (snd (Rate_flush r ts iv)) ts' iv') = []"
    by (simp add: Rate_flush_def)
  have K: "iv' \<noteq> 0 \<longrightarrow>
      fst (Counter_flush (snd (Counter_flush k ts iv)) ts' iv') =
        Inr [formatter k
               \<lparr>kw_metric = name k, kw_value = 0, kw_timestamp = ts', kw_tags = tags k,
                kw_hostname = hostname k, kw_device_name = Some (device_name k),
                kw_metric_type = RATE, kw_interval = iv'\<rparr>]"
    by (simp add: Counter_flush_def py_truediv_def split: sum.splits)
  from G B C M H S R K show ?thesis by blast
qed

text \<open>
  The amended claim at a Histogram that holds the samples 4 and 2 (its first flush
  returns five records) and at a Counter that holds the value 3.
\<close>

theorem second_flush_empty_except_Counter_witness:
  "\<not> isl (fst (Histogram_flush
             (Histogram_init id ''m'' [] None None None
                \<lparr>Histogram_count := 2, Histogram_samples := [4, 2]\<rparr>) 10 1)) \<and>
   fst (Histogram_flush
          (snd (Histogram_flush
             (Histogram_init id ''m'' [] None None None
                \<lparr>Histogram_count := 2, Histogram_samples := [4, 2]\<rparr>) 10 1)) 20 1) = Inr [] \<and>
   (1 :: rat) \<noteq> 0 \<and>
   fst (Counter_flush
          (snd (Counter_flush (Counter_init id ''m'' [] None None\<lparr>Counter_value := 3\<rparr>) 10 1))
          20 1) =
     Inr [\<lparr>kw_metric = ''m'', kw_value = 0, kw_timestamp = 20, kw_tags = [],
           kw_hostname = None, kw_device_name = Some None, kw_metric_type = RATE,
           kw_interval = 1\<rparr>]"
proof -
  have h: "\<not> isl (fst (Histogram_flush
             (Histogram_init id ''m'' [] None None None
                \<lparr>Histogram_count := 2, Histogram_samples := [4, 2]\<rparr>) 10 1))"
    by (simp add: Histogram_defs)
  have i: "(1 :: rat) \<noteq> 0" by simp
  show ?thesis
    using h i
      second_flush_empty_except_Counter
        [of "Gauge_init id ''m'' [] None None 0" 10 1 20 1
            "Count_init id ''m'' [] None None"
            "MonotonicCount_init id ''m'' [] None None"
            "Histogram_init id ''m'' [] None None None
               \<lparr>Histogram_count := 2, Histogram_samples := [4, 2]\<rparr>"
            "Set_init id ''m'' [] None None :: (formatter_args, string) SetMetric"
            "Rate_init id ''m'' [] None None"
            "Counter_init id ''m'' [] None None\<lparr>Counter_value := 3\<rparr>"]
    by (simp add: Counter_init_def)
qed

subsection \<open>C2: when MonotonicCount carries its state\<close>

text \<open>
  Claim C2 says that \<open>flush\<close> of a MonotonicCount always carries the state forward,
  also when \<open>count\<close> is unset. It fails: after one sample of 10 on a new object
  \<open>count\<close> is unset, and the flush returns nothing and leaves \<open>curr_counter\<close> at 10
  and \<open>prev_counter\<close> unset.
\<close>

theorem MonotonicCount_flush_no_carry_when_count_unset:
  "MonotonicCount_count
     (MonotonicCount_sample (MonotonicCount_init id ''m'' [] None None) 10 1 None 100) = None \<and>
   curr_counter
     (MonotonicCount_sample (MonotonicCount_init id ''m'' [] None None) 10 1 None 100) = Some 10 \<and>
   fst (MonotonicCount_flush
          (MonotonicCount_sample (MonotonicCount_init id ''m'' [] None None) 10 1 None 100)
          110 10) = [] \<and>
   prev_counter
     (snd (MonotonicCount_flush
             (MonotonicCount_sample (MonotonicCount_init id ''m'' [] None None) 10 1 None 100)
             110 10)) = None \<and>
   curr_counter
     (snd (MonotonicCount_flush
             (MonotonicCount_sample (MonotonicCount_init id ''m'' [] None None) 10 1 None 100)
             110 10)) = Some 10"
  by (simp add: MonotonicCount_flush_def MonotonicCount_sample_def MonotonicCount_init_def
      Let_def)

text \<open>
  Claim C2, as amended: \<open>flush\<close> of a MonotonicCount carries the state exactly when
  \<open>count\<close> is set. Then it returns one COUNT record of that count, and afterwards
  \<open>prev_counter\<close> is the \<open>curr_counter\<close> of before the flush and \<open>curr_counter\<close>
  and \<open>count\<close> are unset. When \<open>count\<close> is unset it returns nothing and leaves the
  object as it was.
\<close>

theorem MonotonicCount_flush_carry_iff_emitted:
  "(MonotonicCount_count m = None \<longrightarrow> MonotonicCount_flush m ts iv = ([], m)) \<and>
   (MonotonicCount_count m = Some c \<longrightarrow>
      fst (MonotonicCount_flush m ts iv) =
        [formatter m
           \<lparr>kw_metric = name m, kw_value = c, kw_timestamp = ts, kw_tags = tags m,
            kw_hostname = hostname m, kw_device_name = Some (device_name m),
            kw_metric_type = COUNT, kw_interval = iv\<rparr>] \<and>
      prev_counter (snd (MonotonicCount_flush m ts iv)) = curr_counter m \<and>
      curr_counter (snd (MonotonicCount_flush m ts iv)) = None \<and>
      MonotonicCount_count (snd (MonotonicCount_flush m ts iv)) = None)"
  by (simp add: MonotonicCount_flush_def)

text \<open>
  The amended claim at an object with a count of 5 (readings 10 and 15), and at a new
  object, whose count is unset.
\<close>

theorem MonotonicCount_flush_carry_iff_emitted_witness:
  "MonotonicCount_count
     (MonotonicCount_init id ''m'' [] None None
        \<lparr>prev_counter := Some 10, curr_counter := Some 15, MonotonicCount_count := Some 5\<rparr>)
     = Some 5 \<and>
   fst (MonotonicCount_flush
          (MonotonicCount_init id ''m'' [] None None
             \<lparr>prev_counter := Some 10, curr_counter := Some 15, MonotonicCount_count := Some 5\<rparr>)
          110 10) =
     [\<lparr>kw_metric = ''m'', kw_value = 5, kw_timestamp = 110, kw_tags = [],
       kw_hostname = None, kw_device_name = Some None, kw_metric_type = COUNT,
       kw_interval = 10\<rparr>] \<and>
   prev_counter
     (snd (MonotonicCount_flush
             (MonotonicCount_init id ''m'' [] None None
                \<lparr>prev_counter := Some 10, curr_counter := Some 15,
                 MonotonicCount_count := Some 5\<rparr>)
             110 10)) = Some 15 \<and>
   MonotonicCount_count (MonotonicCount_init id ''m'' [] None None) = None \<and>
   MonotonicCount_flush (MonotonicCount_init id ''m'' [] None None) 110 10 =
     ([], MonotonicCount_init id ''m'' [] None None)"
proof -
  have cnt: "MonotonicCount_count
     (MonotonicCount_init id ''m'' [] None None
        \<lparr>prev_counter := Some 10, curr_counter := Some 15, MonotonicCount_count := Some 5\<rparr>)
     = Some 5"
    by simp
  have unset: "MonotonicCount_count (MonotonicCount_init id ''m'' [] None None) = None"
    by (simp add: MonotonicCount_init_def)
  show ?thesis
    using cnt unset
      MonotonicCount_flush_carry_iff_emitted
        [of "MonotonicCount_init id ''m'' [] None None
               \<lparr>prev_counter := Some 10, curr_counter := Some 15,
                MonotonicCount_count := Some 5\<rparr>" 110 10 5]
      MonotonicCount_flush_carry_iff_emitted
        [of "MonotonicCount_init id ''m'' [] None None" 110 10 0]
    by (simp add: MonotonicCount_init_def)
qed

subsection \<open>C3: the keyword arguments of the formatter\<close>

text \<open>
  Claim C3 says that every record of \<open>Histogram.flush\<close>, the records of the
  percentiles included, is built with a device name. The call of the formatter in the
  loop over the percentiles passes no \<open>device_name\<close>, unlike the call for the
  aggregates a few lines above it and the calls of all other classes. A Histogram with
  the default configuration and the device name \<open>sda\<close>, after one sample, builds
  four records with the device name and the record of the percentile without it.
\<close>

theorem Histogram_percentile_call_omits_device_name:
  "Histogram_sample (Histogram_init id ''m'' [] None (Some ''sda'') None) 1 1 None 100 =
     Inr (Histogram_init id ''m'' [] None (Some ''sda'') None
            \<lparr>Histogram_count := 1, Histogram_samples := [1], last_sample_time := Some 100\<rparr>) \<and>
   map_sum id (map kw_metric)
     (fst (Histogram_flush
             (Histogram_init id ''m'' [] None (Some ''sda'') None
                \<lparr>Histogram_count := 1, Histogram_samples := [1], last_sample_time := Some 100\<rparr>)
             110 10)) =
     Inr [''m.max'', ''m.median'', ''m.avg'', ''m.count'', ''m.95percentile''] \<and>
   map_sum id (map kw_device_name)
     (fst (Histogram_flush
             (Histogram_init id ''m'' [] None (Some ''sda'') None
                \<lparr>Histogram_count := 1, Histogram_samples := [1], last_sample_time := Some 100\<rparr>)
             110 10)) =
     Inr [Some (Some ''sda''), Some (Some ''sda''), Some (Some ''sda''), Some (Some ''sda''),
          None]"
  by (simp add: Histogram_defs)

subsection \<open>C4: the sample rate correction\<close>




subsection \<open>C5: the default aggregates of a Histogram\<close>

text \<open>
  Claim C5: a Histogram with the default configuration that received the samples 5, 1,
  9 and 3, each with the sample rate 1, returns on \<open>flush\<close> with the interval 1
  exactly the records max = 9, median = 3, avg = 4.5 (all GAUGE), count = 4 (RATE) and
  95percentile = 9 (GAUGE), in this order and with no record for min or sum; afterwards
  the samples are empty and the count is 0.
\<close>

theorem Histogram_default_aggregates:
  "\<exists>h1 h2 h3 h4.
     Histogram_sample (Histogram_init fmt nm tgs host dev None) 5 1 t1 n1 = Inr h1 \<and>
     Histogram_sample h1 1 1 t2 n2 = Inr h2 \<and>
     Histogram_sample h2 9 1 t3 n3 = Inr h3 \<and>
     Histogram_sample h3 3 1 t4 n4 = Inr h4 \<and>
     Histogram_flush h4 ts 1 =
       (Inr [fmt \<lparr>kw_metric = nm @ ''.max'', kw_value = 9, kw_timestamp = ts, kw_tags = tgs,
                 kw_hostname = host, kw_device_name = Some dev, kw_metric_type = GAUGE,
                 kw_interval = 1\<rparr>,
            fmt \<lparr>kw_metric = nm @ ''.median'', kw_value = 3, kw_timestamp = ts, kw_tags = tgs,
                 kw_hostname = host, kw_device_name = Some dev, kw_metric_type = GAUGE,
                 kw_interval = 1\<rparr>,
            fmt \<lparr>kw_metric = nm @ ''.avg'', kw_value = 9 / 2, kw_timestamp = ts, kw_tags = tgs,
                 kw_hostname = host, kw_device_name = Some dev, kw_metric_type = GAUGE,
                 kw_interval = 1\<rparr>,
            fmt \<lparr>kw_metric = nm @ ''.count'', kw_value = 4, kw_timestamp = ts, kw_tags = tgs,
                 kw_hostname = host, kw_device_name = Some dev, kw_metric_type = RATE,
                 kw_interval = 1\<rparr>,
            fmt \<lparr>kw_metric = nm @ ''.95percentile'', kw_value = 9, kw_timestamp = ts,
                 kw_tags = tgs, kw_hostname = host, kw_device_name = None,
                 kw_metric_type = GAUGE, kw_interval = 1\<rparr>],
        h4\<lparr>Histogram_samples := [], Histogram_count := 0\<rparr>)"
  by (simp add: Histogram_defs)

subsection \<open>C6: the suppressed rates\<close>

text \<open>
  Claim C6: when a Rate holds at least two samples and the last two have the same
  timestamp or a decreasing value, \<open>flush\<close> returns the empty list (the exception of
  the rate computation, \<open>Infinity\<close> or \<open>UnknownValue\<close>, does not leave it), and
  afterwards the object holds exactly the last sample.
\<close>

theorem Rate_flush_suppressed:
  assumes "Rate_samples r = xs @ [s1, s2]"
    and "fst s2 - fst s1 = 0 \<or> snd s2 - snd s1 < 0"
  shows "Rate_flush r ts iv = ([], r\<lparr>Rate_samples := [s2]\<rparr>) \<and>
         (Rate_rate s1 s2 = Inl Infinity \<or> Rate_rate s1 s2 = Inl UnknownValue)"
  using assms
  by (auto simp: Rate_flush_def Rate_value_def Rate_rate_def py_index_def Let_def nth_append)

text \<open>
  The claim at three samples of which the last two were taken in the same second, and at
  two samples whose value decreases.
\<close>

theorem Rate_flush_suppressed_witness:
  "Rate_samples (Rate_init id ''m'' [] None None\<lparr>Rate_samples := [(1, 4), (5, 10), (5, 20)]\<rparr>)
     = [(1, 4)] @ [(5, 10), (5, 20)] \<and>
   fst (5 :: int, 20 :: rat) - fst (5 :: int, 10 :: rat) = 0 \<and>
   Rate_flush (Rate_init id ''m'' [] None None\<lparr>Rate_samples := [(1, 4), (5, 10), (5, 20)]\<rparr>)
       110 10 =
     ([], Rate_init id ''m'' [] None None\<lparr>Rate_samples := [(5, 20)]\<rparr>) \<and>
   Rate_samples (Rate_init id ''m'' [] None None\<lparr>Rate_samples := [(0, 20), (5, 10)]\<rparr>)
     = [] @ [(0, 20), (5, 10)] \<and>
   snd (5 :: int, 10 :: rat) - snd (0 :: int, 20 :: rat) < 0 \<and>
   Rate_flush (Rate_init id ''m'' [] None None\<lparr>Rate_samples := [(0, 20), (5, 10)]\<rparr>)
       110 10 =
     ([], Rate_init id ''m'' [] None None\<lparr>Rate_samples := [(5, 10)]\<rparr>)"
proof -
  have a1: "Rate_samples
              (Rate_init id ''m'' [] None None\<lparr>Rate_samples := [(1, 4), (5, 10), (5, 20)]\<rparr>)
            = [(1, 4)] @ [(5, 10), (5, 20)]"
    by simp
  have a2: "fst (5 :: int, 20 :: rat) - fst (5 :: int, 10 :: rat) = 0
            \<or> snd (5 :: int, 20 :: rat) - snd (5 :: int, 10 :: rat) < 0"
    by simp
  have b1: "Rate_samples
              (Rate_init id ''m'' [] None None\<lparr>Rate_samples := [(0, 20), (5, 10)]\<rparr>)
            = [] @ [(0, 20), (5, 10)]"
    by simp
  have b2: "fst (5 :: int, 10 :: rat) - fst (0 :: int, 20 :: rat) = 0
            \<or> snd (5 :: int, 10 :: rat) - snd (0 :: int, 20 :: rat) < 0"
    by simp
  show ?thesis
    using Rate_flush_suppressed [OF a1 a2, of 110 10] Rate_flush_suppressed [OF b1 b2, of 110 10]
    by simp
qed

subsection \<open>C7: the delta of a MonotonicCount across a flush\<close>

text \<open>
  Claim C7: on a new MonotonicCount, \<open>sample(10)\<close> and a flush return nothing; then
  \<open>sample(15)\<close> and a flush return exactly one COUNT record of value 5.
\<close>

theorem MonotonicCount_cross_window_delta:
  "fst (MonotonicCount_flush
          (MonotonicCount_sample (MonotonicCount_init fmt nm tgs host dev) 10 r1 t1 n1)
          ts1 iv1) = [] \<and>
   fst (MonotonicCount_flush
          (MonotonicCount_sample
             (snd (MonotonicCount_flush
                     (MonotonicCount_sample (MonotonicCount_init fmt nm tgs host dev) 10 r1 t1 n1)
                     ts1 iv1))
             15 r2 t2 n2)
          ts2 iv2) =
     [fmt \<lparr>kw_metric = nm, kw_value = 5, kw_timestamp = ts2, kw_tags = tgs,
           kw_hostname = host, kw_device_name = Some dev, kw_metric_type = COUNT,
           kw_interval = iv2\<rparr>]"
  by (simp add: MonotonicCount_flush_def MonotonicCount_sample_def MonotonicCount_init_def
      Let_def py_or_def)

subsection \<open>C8: the last sample of a Gauge wins\<close>

text \<open>
  Claim C8: after any sequence of \<open>sample\<close> calls on a Gauge, one flush returns exactly
  one GAUGE record, whose value is the value of the last \<open>sample\<close> call, and leaves
  the stored value unset. The sequence has a last call, so it is not empty.
\<close>

theorem Gauge_last_write_wins:
  assumes "cs \<noteq> []" and "last cs = (v, r, t, n)"
  shows "fst (Gauge_flush (Gauge_sample_all g cs) ts iv) =
           [formatter g
              \<lparr>kw_metric = name g, kw_value = v, kw_timestamp = py_or t ts, kw_tags = tags g,
               kw_hostname = hostname g, kw_device_name = Some (device_name g),
               kw_metric_type = GAUGE, kw_interval = iv\<rparr>] \<and>
         Gauge_value (snd (Gauge_flush (Gauge_sample_all g cs) ts iv)) = None"
proof -
  from assms have cs: "cs = butlast cs @ [(v, r, t, n)]"
    by (metis append_butlast_last_id)
  have "Gauge_sample_all g cs = Gauge_sample (Gauge_sample_all g (butlast cs)) v r t n"
    by (subst cs) (rule Gauge_sample_all_snoc)
  then show ?thesis
    using Gauge_sample_all_identity [of g "butlast cs"]
    by (simp add: Gauge_flush_def Gauge_sample_def)
qed

text \<open>The claim at \<open>sample(1); sample(2); flush()\<close> on a new Gauge.\<close>

theorem Gauge_last_write_wins_witness:
  "[(1, 1, None, 100), (2, 1, None, 101)] \<noteq> ([] :: (rat \<times> rat \<times> rat option \<times> rat) list) \<and>
   last [(1, 1, None, 100), (2, 1, None, 101)] = (2 :: rat, 1 :: rat, None :: rat option, 101 :: rat) \<and>
   fst (Gauge_flush
          (Gauge_sample_all (Gauge_init id ''m'' [] None None 99)
             [(1, 1, None, 100), (2, 1, None, 101)])
          110 10) =
     [\<lparr>kw_metric = ''m'', kw_value = 2, kw_timestamp = 110, kw_tags = [],
       kw_hostname = None, kw_device_name = Some None, kw_metric_type = GAUGE,
       kw_interval = 10\<rparr>] \<and>
   Gauge_value
     (snd (Gauge_flush
             (Gauge_sample_all (Gauge_init id ''m'' [] None None 99)
                [(1, 1, None, 100), (2, 1, None, 101)])
             110 10)) = None"
proof -
  have ne: "[(1, 1, None, 100), (2, 1, None, 101)] \<noteq> ([] :: (rat \<times> rat \<times> rat option \<times> rat) list)"
    by simp
  have la: "last [(1, 1, None, 100), (2, 1, None, 101)]
              = (2 :: rat, 1 :: rat, None :: rat option, 101 :: rat)"
    by simp
  show ?thesis
    using Gauge_last_write_wins [OF ne la, of "Gauge_init id ''m'' [] None None 99" 110 10]
    by (simp add: Gauge_init_def py_or_def)
qed

subsection \<open>C9: the sample rate that is not read\<close>

text \<open>
  Claim C9: for Gauge, BucketGauge, Count, MonotonicCount, Set and Rate, two runs of the
  same sequence of calls that differ only in the sample rates passed to \<open>sample\<close> end
  in the same state and return the same records at every flush.
\<close>

theorem sample_rate_ignored:
  assumes "list_all2 same_but_sample_rate cs cs'"
    and "list_all2 same_but_sample_rate ds ds'"
  shows "run_calls Gauge_sample Gauge_flush g cs = run_calls Gauge_sample Gauge_flush g cs' \<and>
         run_calls Gauge_sample BucketGauge_flush g cs =
           run_calls Gauge_sample BucketGauge_flush g cs' \<and>
         run_calls Count_sample Count_flush c cs = run_calls Count_sample Count_flush c cs' \<and>
         run_calls MonotonicCount_sample MonotonicCount_flush m cs =
           run_calls MonotonicCount_sample MonotonicCount_flush m cs' \<and>
         run_calls Set_sample Set_flush s ds = run_calls Set_sample Set_flush s ds' \<and>
         run_calls Rate_sample Rate_flush r cs = run_calls Rate_sample Rate_flush r cs'"
proof -
  have "run_calls Gauge_sample Gauge_flush g cs = run_calls Gauge_sample Gauge_flush g cs'"
    by (rule run_calls_sample_rate [OF _ assms(1)]) (simp add: Gauge_sample_def)
  moreover have "run_calls Gauge_sample BucketGauge_flush g cs =
      run_calls Gauge_sample BucketGauge_flush g cs'"
    by (rule run_calls_sample_rate [OF _ assms(1)]) (simp add: Gauge_sample_def)
  moreover have "run_calls Count_sample Count_flush c cs =
      run_calls Count_sample Count_flush c cs'"
    by (rule run_calls_sample_rate [OF _ assms(1)]) (simp add: Count_sample_def)
  moreover have "run_calls MonotonicCount_sample MonotonicCount_flush m cs =
      run_calls MonotonicCount_sample MonotonicCount_flush m cs'"
    by (rule run_calls_sample_rate [OF _ assms(1)]) (simp add: MonotonicCount_sample_def)
  moreover have "run_calls Set_sample Set_flush s ds = run_calls Set_sample Set_flush s ds'"
    by (rule run_calls_sample_rate [OF _ assms(2)]) (simp add: Set_sample_def)
  moreover have "run_calls Rate_sample Rate_flush r cs = run_calls Rate_sample Rate_flush r cs'"
    by (rule run_calls_sample_rate [OF _ assms(1)]) (simp add: Rate_sample_def)
  ultimately show ?thesis by blast
qed

text \<open>
  The claim at two samples and a flush, once with the sample rates 1 and 1 and once with
  1/2 and 1/4; the run of the Count returns the one record of value 7 in both.
\<close>

theorem sample_rate_ignored_witness:
  "list_all2 same_but_sample_rate
     [Sample (3 :: rat) 1 None 100, Sample 4 1 (Some 50) 101, Flush 110 10]
     [Sample 3 (1 / 2) None 100, Sample 4 (1 / 4) (Some 50) 101, Flush 110 10] \<and>
   list_all2 same_but_sample_rate
     [Sample ''a'' 1 None 100, Flush 110 10] [Sample ''a'' (1 / 2) None 100, Flush 110 10] \<and>
   run_calls Count_sample Count_flush (Count_init id ''m'' [] None None)
     [Sample 3 1 None 100, Sample 4 1 (Some 50) 101, Flush 110 10] =
   run_calls Count_sample Count_flush (Count_init id ''m'' [] None None)
     [Sample 3 (1 / 2) None 100, Sample 4 (1 / 4) (Some 50) 101, Flush 110 10] \<and>
   fst (run_calls Count_sample Count_flush (Count_init id ''m'' [] None None)
          [Sample 3 (1 / 2) None 100, Sample 4 (1 / 4) (Some 50) 101, Flush 110 10]) =
     [[\<lparr>kw_metric = ''m'', kw_value = 7, kw_timestamp = 110, kw_tags = [],
        kw_hostname = None, kw_device_name = Some None, kw_metric_type = COUNT,
        kw_interval = 10\<rparr>]] \<and>
   run_calls Set_sample Set_flush (Set_init id ''m'' [] None None)
     [Sample ''a'' 1 None 100, Flush 110 10] =
   run_calls Set_sample Set_flush (Set_init id ''m'' [] None None)
     [Sample ''a'' (1 / 2) None 100, Flush 110 10]"
proof -
  have a: "list_all2 same_but_sample_rate
     [Sample (3 :: rat) 1 None 100, Sample 4 1 (Some 50) 101, Flush 110 10]
     [Sample 3 (1 / 2) None 100, Sample 4 (1 / 4) (Some 50) 101, Flush 110 10]"
    by simp
  have b: "list_all2 same_but_sample_rate
     [Sample ''a'' 1 None 100, Flush 110 10] [Sample ''a'' (1 / 2) None 100, Flush 110 10]"
    by simp
  have out: "fst (run_calls Count_sample Count_flush (Count_init id ''m'' [] None None)
          [Sample 3 (1 / 2) None 100, Sample 4 (1 / 4) (Some 50) 101, Flush 110 10]) =
     [[\<lparr>kw_metric = ''m'', kw_value = 7, kw_timestamp = 110, kw_tags = [],
        kw_hostname = None, kw_device_name = Some None, kw_metric_type = COUNT,
        kw_interval = 10\<rparr>]]"
    by (simp add: Count_sample_def Count_flush_def Count_init_def py_or_def)
  have eq: "run_calls Count_sample Count_flush (Count_init id ''m'' [] None None)
     [Sample 3 1 None 100, Sample 4 1 (Some 50) 101, Flush 110 10] =
   run_calls Count_sample Count_flush (Count_init id ''m'' [] None None)
     [Sample 3 (1 / 2) None 100, Sample 4 (1 / 4) (Some 50) 101, Flush 110 10] \<and>
   run_calls Set_sample Set_flush (Set_init id ''m'' [] None None)
     [Sample ''a'' 1 None 100, Flush 110 10] =
   run_calls Set_sample Set_flush (Set_init id ''m'' [] None None)
     [Sample ''a'' (1 / 2) None 100, Flush 110 10]"
    using sample_rate_ignored
      [OF a b, of "Gauge_init id ''m'' [] None None 99" "Count_init id ''m'' [] None None"
         "MonotonicCount_init id ''m'' [] None None" "Set_init id ''m'' [] None None"
         "Rate_init id ''m'' [] None None"]
    by blast
  from a b out eq show ?thesis by blast
qed

subsection \<open>C10: a sample timestamp that is absent or zero\<close>

text \<open>
  Claim C10: when the last \<open>sample\<close> call on a Gauge before a flush passed no
  timestamp, or passed the timestamp 0, the record of the flush has the timestamp of the
  flush: \<open>self.timestamp or timestamp\<close> takes the second operand for \<open>None\<close> and for 0.
\<close>

theorem Gauge_flush_timestamp_absent_or_zero:
  "t = None \<or> t = Some 0 \<Longrightarrow>
   fst (Gauge_flush (Gauge_sample g v r t now) ts iv) =
     [formatter g
        \<lparr>kw_metric = name g, kw_value = v, kw_timestamp = ts, kw_tags = tags g,
         kw_hostname = hostname g, kw_device_name = Some (device_name g),
         kw_metric_type = GAUGE, kw_interval = iv\<rparr>]"
  by (auto simp: Gauge_flush_def Gauge_sample_def py_or_def)

text \<open>The claim at a sample that passes the timestamp 0, flushed at the timestamp 110.\<close>

theorem Gauge_flush_timestamp_absent_or_zero_witness:
  "(Some 0 = (None :: rat option) \<or> Some 0 = Some (0 :: rat)) \<and>
   fst (Gauge_flush (Gauge_sample (Gauge_init id ''m'' [] None None 99) 8 1 (Some 0) 100)
          110 10) =
     [\<lparr>kw_metric = ''m'', kw_value = 8, kw_timestamp = 110, kw_tags = [],
       kw_hostname = None, kw_device_name = Some None, kw_metric_type = GAUGE,
       kw_interval = 10\<rparr>]"
proof -
  have z: "Some 0 = (None :: rat option) \<or> Some 0 = Some (0 :: rat)" by simp
  show ?thesis
    using Gauge_flush_timestamp_absent_or_zero
      [OF z, of "Gauge_init id ''m'' [] None None 99" 8 1 100 110 10]
    by (simp add: Gauge_init_def)
qed

end
